theory Spec2Isabelle
  imports Complex_Main
begin

section \<open>The capability table of \<open>EditTeamMember\<close>\<close>

text \<open>
  The component under study is the React form \<open>EditTeamMember\<close>. Its static part is the
  table \<open>ALLOWED_MEMBER_CONFIGS\<close>, an object literal keyed by the member type. The type
  \<open>MemberTypes\<close> of the source is a union of string literals, erased at run time: a member
  type is a string, and the eight literals are listed here in the order of the declaration.
\<close>

definition MemberTypes :: "string list" where
  "MemberTypes =
     [''root'', ''leader'', ''worker'', ''freelancer'', ''freelancer_root'',
      ''chatbot'', ''ragbot'', ''workflow'']"

record MemberConfigs =
  selection :: "string list"
  enableSkillTools :: bool
  enableUploadTools :: bool
  enableInterrupt :: bool
  enableHumanTool :: bool

text \<open>The object literal, one pair per property, in source order.\<close>

definition ALLOWED_MEMBER_CONFIGS :: "(string \<times> MemberConfigs) list" where
  "ALLOWED_MEMBER_CONFIGS =
     [(''root'',
         \<lparr>selection = [''root''], enableSkillTools = False, enableUploadTools = False,
          enableInterrupt = False, enableHumanTool = False\<rparr>),
      (''leader'',
         \<lparr>selection = [''worker'', ''leader''], enableSkillTools = False,
          enableUploadTools = False, enableInterrupt = False, enableHumanTool = False\<rparr>),
      (''worker'',
         \<lparr>selection = [''worker'', ''leader''], enableSkillTools = True,
          enableUploadTools = True, enableInterrupt = False, enableHumanTool = False\<rparr>),
      (''freelancer'',
         \<lparr>selection = [''freelancer''], enableSkillTools = True, enableUploadTools = True,
          enableInterrupt = True, enableHumanTool = True\<rparr>),
      (''freelancer_root'',
         \<lparr>selection = [''freelancer_root''], enableSkillTools = True,
          enableUploadTools = True, enableInterrupt = True, enableHumanTool = True\<rparr>),
      (''chatbot'',
         \<lparr>selection = [''chatbot''], enableSkillTools = True, enableUploadTools = True,
          enableInterrupt = True, enableHumanTool = True\<rparr>),
      (''ragbot'',
         \<lparr>selection = [''ragbot''], enableSkillTools = False, enableUploadTools = True,
          enableInterrupt = False, enableHumanTool = False\<rparr>),
      (''workflow'',
         \<lparr>selection = [''ragbot''], enableSkillTools = False, enableUploadTools = True,
          enableInterrupt = False, enableHumanTool = False\<rparr>)]"

text \<open>
  \<open>ALLOWED_MEMBER_CONFIGS[key]\<close> is a property read on a plain object. It never throws:
  an own property gives its profile, a name found on \<open>Object.prototype\<close> gives the
  inherited member (an object without any of the profile's properties), and every other
  key gives \<open>undefined\<close>.
\<close>

definition objectPrototypeKeys :: "string list" where
  "objectPrototypeKeys =
     [''constructor'', ''hasOwnProperty'', ''isPrototypeOf'', ''propertyIsEnumerable'',
      ''toLocaleString'', ''toString'', ''valueOf'', ''__proto__'',
      ''__defineGetter__'', ''__defineSetter__'', ''__lookupGetter__'', ''__lookupSetter__'']"

datatype config_lookup = Config MemberConfigs | Inherited | Undefined

text \<open>\<open>const memberConfig = ALLOWED_MEMBER_CONFIGS[watch("type") as MemberTypes]\<close>\<close>

definition memberConfig :: "string \<Rightarrow> config_lookup" where
  "memberConfig watchedType =
     (case map_of ALLOWED_MEMBER_CONFIGS watchedType of
        Some cfg \<Rightarrow> Config cfg
      | None \<Rightarrow> if watchedType \<in> set objectPrototypeKeys then Inherited else Undefined)"

text \<open>
  Reading a property of the looked-up value is where JavaScript fails: a property of
  \<open>undefined\<close> cannot be read. A flag missing on an inherited member reads as
  \<open>undefined\<close>, which the conditions of the source treat as false; \<open>selection.map\<close> on it
  fails as well.
\<close>

datatype error = TypeError

fun readFlag :: "(MemberConfigs \<Rightarrow> bool) \<Rightarrow> config_lookup \<Rightarrow> error + bool" where
  "readFlag flag (Config cfg) = Inr (flag cfg)"
| "readFlag flag Inherited = Inr False"
| "readFlag flag Undefined = Inl TypeError"

fun readSelection :: "config_lookup \<Rightarrow> error + string list" where
  "readSelection (Config cfg) = Inr (selection cfg)"
| "readSelection Inherited = Inl TypeError"
| "readSelection Undefined = Inl TypeError"

section \<open>Catalog entities and the member record\<close>

text \<open>
  Modelled from the spec: the types \<open>MemberOut\<close>, \<open>MemberUpdate\<close>, \<open>ApiError\<close> and the
  catalog entities are declared in the generated client (\<open>../../client\<close>), which is not part
  of the sources at hand. The records below hold the fields that the spec lists for them
  and that the component reads. A JavaScript object may carry the two decorations \<open>label\<close>
  and \<open>value\<close> or not, so these are optional fields of the same record, and one record
  serves for the member read from the server and for the values held by the form (the
  source builds the latter by spreading the former). Field names carry the name of their
  record as a prefix, since Isabelle has one name space for all records.
\<close>

record Skill =
  skill_id :: int
  skill_name :: string
  skill_description :: string
  skill_label :: "string option"
  skill_value :: "int option"

record Upload =
  upload_id :: int
  upload_name :: string
  upload_label :: "string option"
  upload_value :: "int option"

record Provider =
  provider_name :: string

record Model =
  ai_model_name :: string
  provider :: Provider

record Member =
  member_id :: int
  belongs_to :: int
  member_type :: string
  member_name :: string
  member_role :: string
  member_backstory :: "string option"
  member_model :: "string option"
  member_provider :: "string option"
  member_temperature :: "real option"
  member_interrupt :: bool
  member_skills :: "Skill list"
  member_uploads :: "Upload list"

record ApiErrorBody =
  detail :: "string option"

record ApiError =
  body :: "ApiErrorBody option"

section \<open>Option resolvers\<close>

definition bindE :: "error + 'a \<Rightarrow> ('a \<Rightarrow> error + 'b) \<Rightarrow> error + 'b" where
  "bindE r f = (case r of Inl e \<Rightarrow> Inl e | Inr x \<Rightarrow> f x)"

text \<open>
  The callback of \<open>filter\<close>: \<open>skill.name !== "ask-human" || memberConfig.enableHumanTool\<close>.
  The right operand is evaluated only for a skill named \<open>ask-human\<close>.
\<close>

definition keepSkill :: "config_lookup \<Rightarrow> Skill \<Rightarrow> error + bool" where
  "keepSkill mc skill =
     (if skill_name skill \<noteq> ''ask-human'' then Inr True else readFlag enableHumanTool mc)"

fun filterE :: "('a \<Rightarrow> error + bool) \<Rightarrow> 'a list \<Rightarrow> error + 'a list" where
  "filterE p [] = Inr []"
| "filterE p (x # xs) =
     bindE (p x) (\<lambda>keep. bindE (filterE p xs) (\<lambda>ys. Inr (if keep then x # ys else ys)))"

text \<open>\<open>{...skill, label: skill.name, value: skill.id}\<close>\<close>

definition skillOption :: "Skill \<Rightarrow> Skill" where
  "skillOption skill =
     skill\<lparr>skill_label := Some (skill_name skill), skill_value := Some (skill_id skill)\<rparr>"

definition uploadOption :: "Upload \<Rightarrow> Upload" where
  "uploadOption upload =
     upload\<lparr>upload_label := Some (upload_name upload), upload_value := Some (upload_id upload)\<rparr>"

text \<open>
  The query result \<open>skills\<close> is \<open>undefined\<close> until the catalog has been fetched
  (\<open>None\<close>), and \<open>{data: [...]}\<close> afterwards.
\<close>

definition skillOptions :: "Skill list option \<Rightarrow> config_lookup \<Rightarrow> error + Skill list" where
  "skillOptions skills mc =
     (case skills of
        Some data \<Rightarrow> bindE (filterE (keepSkill mc) data) (\<lambda>kept. Inr (map skillOption kept))
      | None \<Rightarrow> Inr [])"

definition uploadOptions :: "Upload list option \<Rightarrow> Upload list" where
  "uploadOptions uploads =
     (case uploads of Some data \<Rightarrow> map uploadOption data | None \<Rightarrow> [])"

section \<open>Field validation\<close>

text \<open>
  The only regular expression of the component is \<open>/^[a-zA-Z0-9_-]{1,64}$/\<close>: a character
  class repeated between two bounds, anchored at both ends of the input (no flag, so
  \<open>$\<close> is the very end). A regular expression of this shape is given by the items of
  its class (ranges of character codes and single characters) and the two bounds.
\<close>

datatype class_item = Range char char | Single char

fun inItem :: "char \<Rightarrow> class_item \<Rightarrow> bool" where
  "inItem c (Range lo hi) = ((of_char lo :: nat) \<le> of_char c \<and> (of_char c :: nat) \<le> of_char hi)"
| "inItem c (Single x) = (c = x)"

datatype regex = ClassRepeat "class_item list" nat nat

fun regexTest :: "regex \<Rightarrow> string \<Rightarrow> bool" where
  "regexTest (ClassRepeat cls lo hi) s =
     (lo \<le> length s \<and> length s \<le> hi \<and> list_all (\<lambda>c. list_ex (inItem c) cls) s)"

definition namePattern :: regex where
  "namePattern =
     ClassRepeat
       [Range CHR ''a'' CHR ''z'', Range CHR ''A'' CHR ''Z'', Range CHR ''0'' CHR ''9'',
        Single CHR ''_'', Single CHR ''-''] 1 64"

datatype rule = Required string | Pattern regex string

datatype field = FType | FName | FRole | FBackstory | FTemperature

datatype jsval = Str string | Num real | Null

fun fieldValue :: "field \<Rightarrow> Member \<Rightarrow> jsval" where
  "fieldValue FType v = Str (member_type v)"
| "fieldValue FName v = Str (member_name v)"
| "fieldValue FRole v = Str (member_role v)"
| "fieldValue FBackstory v = (case member_backstory v of None \<Rightarrow> Null | Some s \<Rightarrow> Str s)"
| "fieldValue FTemperature v = (case member_temperature v of None \<Rightarrow> Null | Some t \<Rightarrow> Num t)"

text \<open>
  The rules as the form library applies them: \<open>required\<close> rejects an absent value and the
  empty string (the number 0 is a value); \<open>pattern\<close> is tested on a non-empty string only.
\<close>

fun isEmptyValue :: "jsval \<Rightarrow> bool" where
  "isEmptyValue Null = True"
| "isEmptyValue (Str s) = (s = [])"
| "isEmptyValue (Num x) = False"

fun ruleError :: "rule \<Rightarrow> jsval \<Rightarrow> string option" where
  "ruleError (Required message) v = (if isEmptyValue v then Some message else None)"
| "ruleError (Pattern re message) (Str s) =
     (if s \<noteq> [] \<and> \<not> regexTest re s then Some message else None)"
| "ruleError (Pattern re message) v = None"

definition validateField :: "rule list \<Rightarrow> jsval \<Rightarrow> string list" where
  "validateField rules v = List.map_filter (\<lambda>r. ruleError r v) rules"

text \<open>
  The fields each view registers without condition, with the rules written at the
  registration: \<open>inlineRules\<close> from the panel (the first \<open>return\<close>), \<open>modalRules\<close> from the
  dialog (the second). The conditional registrations (\<open>skills\<close>, \<open>uploads\<close>, \<open>interrupt\<close>)
  and \<open>model\<close> carry no rule in either view.
\<close>

definition inlineRules :: "(field \<times> rule list) list" where
  "inlineRules =
     [(FName, [Required ''Name is required.'',
               Pattern namePattern ''Name must follow pattern: ^[a-zA-Z0-9_-]{1,64}$'']),
      (FRole, [Required ''Role is required.'']),
      (FBackstory, []),
      (FTemperature, [Required []])]"

definition modalRules :: "(field \<times> rule list) list" where
  "modalRules =
     [(FType, []),
      (FName, [Required ''Name is required.'',
               Pattern namePattern ''Name must follow pattern: ^[a-zA-Z0-9_-]{1,64}$'']),
      (FRole, [Required ''Role is required.'']),
      (FBackstory, []),
      (FTemperature, [Required []])]"

definition formErrors :: "(field \<times> rule list) list \<Rightarrow> Member \<Rightarrow> (field \<times> string) list" where
  "formErrors rules v =
     concat (map (\<lambda>(f, rs). map (Pair f) (validateField rs (fieldValue f v))) rules)"

section \<open>String tests\<close>

text \<open>\<open>s.startsWith(p)\<close> and \<open>s.endsWith(p)\<close>\<close>

definition startsWith :: "string \<Rightarrow> string \<Rightarrow> bool" where
  "startsWith s p = (take (length p) s = p)"

definition endsWith :: "string \<Rightarrow> string \<Rightarrow> bool" where
  "endsWith s p = (length p \<le> length s \<and> drop (length s - length p) s = p)"

section \<open>The state of an edit session\<close>

text \<open>
  What the component does to its collaborators is recorded as a log of effects: a toast
  shown, the \<open>onClose\<close> callback of the parent called, a request sent to the update
  endpoint (\<open>MembersService.updateMember({id, teamId, requestBody})\<close>), the member list of a
  team invalidated (the query key \<open>teams/<teamId>/members\<close>, represented by its team id).
\<close>

datatype effect =
    ShowToast string string string
  | OnClose
  | UpdateMember int int Member
  | InvalidateQueries int

text \<open>
  The form keeps the values it was last reset to (\<open>defaultValues\<close>), the current values
  (\<open>formValues\<close>, the draft) and its flag \<open>isDirty\<close>; \<open>selectedModelProvider\<close> is the
  component's own state; \<open>isSubmitting\<close> belongs to the form and \<open>mutationLoading\<close>
  (\<open>mutation.isLoading\<close>) to the mutation.
\<close>

record Session =
  defaultValues :: Member
  formValues :: Member
  isDirty :: bool
  selectedModelProvider :: string
  isSubmitting :: bool
  mutationLoading :: bool
  effects :: "effect list"

text \<open>The \<open>values\<close> handed to \<open>useForm\<close>: the member with decorated skills and uploads.\<close>

definition initialValues :: "Member \<Rightarrow> Member" where
  "initialValues member =
     member\<lparr>member_skills := map skillOption (member_skills member),
            member_uploads := map uploadOption (member_uploads member)\<rparr>"

definition openSession :: "Member \<Rightarrow> Session" where
  "openSession member =
     \<lparr>defaultValues = initialValues member, formValues = initialValues member,
      isDirty = False, selectedModelProvider = ''openai'', isSubmitting = False, mutationLoading = False,
      effects = []\<rparr>"

definition emit :: "effect \<Rightarrow> Session \<Rightarrow> Session" where
  "emit e st = st\<lparr>effects := effects st @ [e]\<rparr>"

definition showToast :: "string \<Rightarrow> string \<Rightarrow> string \<Rightarrow> Session \<Rightarrow> Session" where
  "showToast title description status st = emit (ShowToast title description status) st"

definition onClose :: "Session \<Rightarrow> Session" where
  "onClose st = emit OnClose st"

text \<open>
  The form library. \<open>reset(data)\<close> makes \<open>data\<close> both the default and the current values,
  \<open>reset()\<close> restores the defaults, and both clear the dirty flag. \<open>setValue(name, value)\<close>
  as the component calls it, without the option \<open>shouldDirty\<close>, writes one field of the
  current values and leaves the flag as it is. An input of the user through a registered
  field (\<open>onChange\<close>) writes the field and sets the flag by comparing the current values
  with the defaults.
\<close>

definition reset :: "Member option \<Rightarrow> Session \<Rightarrow> Session" where
  "reset data st =
     (case data of
        Some d \<Rightarrow> st\<lparr>defaultValues := d, formValues := d, isDirty := False\<rparr>
      | None \<Rightarrow> st\<lparr>formValues := defaultValues st, isDirty := False\<rparr>)"

definition setValue :: "(Member \<Rightarrow> Member) \<Rightarrow> Session \<Rightarrow> Session" where
  "setValue write st = st\<lparr>formValues := write (formValues st)\<rparr>"

definition onChange :: "(Member \<Rightarrow> Member) \<Rightarrow> Session \<Rightarrow> Session" where
  "onChange write st =
     st\<lparr>formValues := write (formValues st),
        isDirty := (write (formValues st) \<noteq> defaultValues st)\<rparr>"

definition registeredRules :: "Member \<Rightarrow> (field \<times> rule list) list" where
  "registeredRules member =
     (if endsWith (member_type member) ''bot'' then inlineRules else modalRules)"

definition isValid :: "Member \<Rightarrow> Session \<Rightarrow> bool" where
  "isValid member st = (formErrors (registeredRules member) (formValues st) = [])"

section \<open>Submission\<close>

text \<open>
  \<open>onSubmit\<close> calls \<open>mutation.mutate(data)\<close>, which runs \<open>updateMember\<close>: one request to the
  update endpoint with the member's id, the team id and the form values as they are.
\<close>

definition updateMember :: "Member \<Rightarrow> int \<Rightarrow> Member \<Rightarrow> Session \<Rightarrow> Session" where
  "updateMember member teamId data st = emit (UpdateMember (member_id member) teamId data) st"

definition onSubmit :: "Member \<Rightarrow> int \<Rightarrow> Member \<Rightarrow> Session \<Rightarrow> Session" where
  "onSubmit member teamId data st = updateMember member teamId data (st\<lparr>mutationLoading := True\<rparr>)"

text \<open>\<open>handleSubmit(onSubmit)\<close>: the callback runs only when no registered rule fails.\<close>

definition handleSubmit :: "Member \<Rightarrow> int \<Rightarrow> Session \<Rightarrow> Session" where
  "handleSubmit member teamId st =
     (if isValid member st then onSubmit member teamId (formValues st) st else st)"

definition onSettled :: "int \<Rightarrow> Session \<Rightarrow> Session" where
  "onSettled teamId st = (emit (InvalidateQueries teamId) st)\<lparr>mutationLoading := False\<rparr>"

definition onSuccess :: "int \<Rightarrow> Member \<Rightarrow> Session \<Rightarrow> Session" where
  "onSuccess teamId data st =
     onSettled teamId
       (onClose (reset (Some data)
          (showToast ''Success!'' ''Team updated successfully.'' ''success'' st)))"

text \<open>The template literal \<open>`${errDetail}`\<close>: an absent detail prints as \<open>undefined\<close>.\<close>

definition templateString :: "string option \<Rightarrow> string" where
  "templateString x = (case x of Some s \<Rightarrow> s | None \<Rightarrow> ''undefined'')"

definition errDetail :: "ApiError \<Rightarrow> string option" where
  "errDetail err = (case body err of None \<Rightarrow> None | Some b \<Rightarrow> detail b)"

definition onError :: "int \<Rightarrow> ApiError \<Rightarrow> Session \<Rightarrow> Session" where
  "onError teamId err st =
     onSettled teamId
       (showToast ''Something went wrong.'' (templateString (errDetail err)) ''error'' st)"

definition onCancel :: "Session \<Rightarrow> Session" where
  "onCancel st = onClose (reset None st)"

section \<open>Model selection\<close>

text \<open>\<open>models?.data.find((model) => model.ai_model_name === modelName)\<close>\<close>

definition findModel :: "Model list option \<Rightarrow> string \<Rightarrow> Model option" where
  "findModel models modelName =
     (case models of
        None \<Rightarrow> None
      | Some data \<Rightarrow> find (\<lambda>model. ai_model_name model = modelName) data)"

definition setSelectedModelProvider :: "string \<Rightarrow> Session \<Rightarrow> Session" where
  "setSelectedModelProvider p st = st\<lparr>selectedModelProvider := p\<rparr>"

definition onModelSelect :: "Model list option \<Rightarrow> string \<Rightarrow> Session \<Rightarrow> Session" where
  "onModelSelect models modelName st =
     (case findModel models modelName of
        Some selectedModel \<Rightarrow>
          setSelectedModelProvider (provider_name (provider selectedModel))
            (setValue (\<lambda>v. v\<lparr>member_provider := Some (provider_name (provider selectedModel))\<rparr>)
              (setValue (\<lambda>v. v\<lparr>member_model := Some modelName\<rparr>) st))
      | None \<Rightarrow> st)"

text \<open>
  The effect on \<open>[member.model, models]\<close>. \<open>if (member.model)\<close> holds for a string that is
  present and not empty.
\<close>

definition modelEffect :: "Member \<Rightarrow> Model list option \<Rightarrow> Session \<Rightarrow> Session" where
  "modelEffect member models st =
     (case member_model member of
        None \<Rightarrow> st
      | Some m \<Rightarrow>
          if m = [] then st
          else (case findModel models m of
                  Some selectedModelData \<Rightarrow>
                    setSelectedModelProvider (provider_name (provider selectedModelData)) st
                | None \<Rightarrow> st))"

section \<open>Rendering\<close>

text \<open>
  A view is the list of the controls it shows, in source order, each with the properties
  the source computes for it: the type selection with \<open>isDisabled\<close> and its options, the
  model selection with \<open>value\<close> and \<open>selectedProvider\<close>, a multi-selection with \<open>isDisabled\<close>
  and its options, the slider with its value, the save button with \<open>isLoading\<close> and
  \<open>isDisabled\<close>. The dialog also has the \<open>isOpen\<close> of the parent.
\<close>

datatype control =
    TypeSelect bool "string list"
  | NameInput
  | RoleTextarea
  | BackstoryTextarea
  | ModelSelect "string option" string
  | SkillsMultiSelect bool "Skill list"
  | UploadsMultiSelect bool "Upload list"
  | InterruptCheckbox
  | TemperatureSlider real
  | SaveButton bool bool
  | CancelButton

datatype view = InlinePanel "control list" | ModalDialog bool "control list"

text \<open>\<open>value ?? 0\<close>\<close>

definition sliderValue :: "Session \<Rightarrow> real" where
  "sliderValue st = (case member_temperature (formValues st) of None \<Rightarrow> 0 | Some t \<Rightarrow> t)"

definition inlineView ::
  "config_lookup \<Rightarrow> Member \<Rightarrow> Session \<Rightarrow> Skill list \<Rightarrow> Upload list \<Rightarrow> error + view" where
  "inlineView mc member st skillOpts uploadOpts =
     bindE (readFlag enableSkillTools mc) (\<lambda>skillsOn.
     bindE (readFlag enableUploadTools mc) (\<lambda>uploadsOn.
     bindE (readFlag enableInterrupt mc) (\<lambda>interruptOn.
       Inr (InlinePanel
         ([NameInput, RoleTextarea, BackstoryTextarea,
           ModelSelect (member_model member) (selectedModelProvider st)]
          @ (if skillsOn then [SkillsMultiSelect False skillOpts] else [])
          @ (if uploadsOn then [UploadsMultiSelect False uploadOpts] else [])
          @ (if interruptOn then [InterruptCheckbox] else [])
          @ [TemperatureSlider (sliderValue st)])))))"

text \<open>
  The \<open>isDisabled\<close> of the form control around the type selection.
\<close>

definition typeDisabled :: "Member \<Rightarrow> bool" where
  "typeDisabled member =
     (member_type member = ''root'' \<or> startsWith (member_type member) ''freelancer'' \<or>
      endsWith (member_type member) ''bot'')"

definition modalView ::
  "config_lookup \<Rightarrow> Member \<Rightarrow> bool \<Rightarrow> Session \<Rightarrow> Skill list \<Rightarrow> Upload list \<Rightarrow> error + view" where
  "modalView mc member isOpen st skillOpts uploadOpts =
     bindE (readSelection mc) (\<lambda>options.
     bindE (readFlag enableSkillTools mc) (\<lambda>skillsOn.
     bindE (readFlag enableUploadTools mc) (\<lambda>uploadsOn.
     bindE (readFlag enableInterrupt mc) (\<lambda>interruptOn.
       Inr (ModalDialog isOpen
         ([TypeSelect (typeDisabled member) options,
           NameInput, RoleTextarea, BackstoryTextarea,
           ModelSelect (member_model member) (selectedModelProvider st)]
          @ (if skillsOn then [SkillsMultiSelect (\<not> skillsOn) skillOpts] else [])
          @ (if uploadsOn then [UploadsMultiSelect (\<not> uploadsOn) uploadOpts] else [])
          @ (if interruptOn then [InterruptCheckbox] else [])
          @ [TemperatureSlider (sliderValue st),
             SaveButton (isSubmitting st \<or> mutationLoading st)
               (\<not> isDirty st \<or> \<not> isValid member st),
             CancelButton]))))))"

text \<open>
  The component: the capability profile is looked up under the type currently held by the
  form (\<open>watch("type")\<close>), the option lists are resolved, and the type of the member prop
  chooses the view.
\<close>

definition EditTeamMember ::
  "Member \<Rightarrow> bool \<Rightarrow> Skill list option \<Rightarrow> Upload list option \<Rightarrow> Session \<Rightarrow> error + view" where
  "EditTeamMember member isOpen skills uploads st =
     (let mc = memberConfig (member_type (formValues st)) in
      bindE (skillOptions skills mc) (\<lambda>skillOpts.
        if endsWith (member_type member) ''bot''
        then inlineView mc member st skillOpts (uploadOptions uploads)
        else modalView mc member isOpen st skillOpts (uploadOptions uploads)))"

fun controlsOf :: "view \<Rightarrow> control list" where
  "controlsOf (InlinePanel cs) = cs"
| "controlsOf (ModalDialog isOpen cs) = cs"

fun isInline :: "view \<Rightarrow> bool" where
  "isInline (InlinePanel cs) = True"
| "isInline (ModalDialog isOpen cs) = False"

section \<open>Events of a session\<close>

datatype event =
    Edit Member
  | ModelSelected string
  | ModelEffect
  | Submit
  | MutationSuccess Member
  | MutationError ApiError
  | Cancel

fun step :: "Member \<Rightarrow> int \<Rightarrow> Model list option \<Rightarrow> event \<Rightarrow> Session \<Rightarrow> Session" where
  "step member teamId models (Edit v) st = onChange (\<lambda>_. v) st"
| "step member teamId models (ModelSelected modelName) st = onModelSelect models modelName st"
| "step member teamId models ModelEffect st = modelEffect member models st"
| "step member teamId models Submit st = handleSubmit member teamId st"
| "step member teamId models (MutationSuccess data) st = onSuccess teamId data st"
| "step member teamId models (MutationError err) st = onError teamId err st"
| "step member teamId models Cancel st = onCancel st"


definition run :: "Member \<Rightarrow> int \<Rightarrow> Model list option \<Rightarrow> event list \<Rightarrow> Session \<Rightarrow> Session" where
  "run member teamId models events st = foldl (\<lambda>s e. step member teamId models e s) st events"

fun isTypeSelect :: "control \<Rightarrow> bool" where
  "isTypeSelect (TypeSelect d opts) = True"
| "isTypeSelect c = False"

fun isCapabilityControl :: "control \<Rightarrow> bool" where
  "isCapabilityControl (SkillsMultiSelect d opts) = True"
| "isCapabilityControl (UploadsMultiSelect d opts) = True"
| "isCapabilityControl InterruptCheckbox = True"
| "isCapabilityControl c = False"

section \<open>Scenario data\<close>

text \<open>
  The inputs of the scenarios: a catalog of two skills, one of them \<open>ask-human\<close>, a catalog
  of two models of different providers, and a worker of team 7.
\<close>

definition scenarioSkills :: "Skill list" where
  "scenarioSkills =
     [\<lparr>skill_id = 1, skill_name = ''search'', skill_description = ''web search'',
       skill_label = None, skill_value = None\<rparr>,
      \<lparr>skill_id = 2, skill_name = ''ask-human'', skill_description = ''ask a human'',
       skill_label = None, skill_value = None\<rparr>]"

definition scenarioModels :: "Model list" where
  "scenarioModels =
     [\<lparr>ai_model_name = ''gpt-4o'', provider = \<lparr>provider_name = ''openai''\<rparr>\<rparr>,
      \<lparr>ai_model_name = ''glm-4'', provider = \<lparr>provider_name = ''zhipuai''\<rparr>\<rparr>]"

definition scenarioMember :: Member where
  "scenarioMember =
     \<lparr>member_id = 3, belongs_to = 7, member_type = ''worker'', member_name = ''coder'',
      member_role = ''writes code'', member_backstory = None, member_model = Some ''glm-4'',
      member_provider = Some ''zhipuai'', member_temperature = Some 0,
      member_interrupt = False, member_skills = [], member_uploads = []\<rparr>"

section \<open>Properties of the capability table\<close>

lemma memberConfig_enumerated:
  "memberConfig ''root'' = Config
     \<lparr>selection = [''root''], enableSkillTools = False, enableUploadTools = False,
      enableInterrupt = False, enableHumanTool = False\<rparr>"
  "memberConfig ''leader'' = Config
     \<lparr>selection = [''worker'', ''leader''], enableSkillTools = False,
      enableUploadTools = False, enableInterrupt = False, enableHumanTool = False\<rparr>"
  "memberConfig ''worker'' = Config
     \<lparr>selection = [''worker'', ''leader''], enableSkillTools = True,
      enableUploadTools = True, enableInterrupt = False, enableHumanTool = False\<rparr>"
  "memberConfig ''freelancer'' = Config
     \<lparr>selection = [''freelancer''], enableSkillTools = True, enableUploadTools = True,
      enableInterrupt = True, enableHumanTool = True\<rparr>"
  "memberConfig ''freelancer_root'' = Config
     \<lparr>selection = [''freelancer_root''], enableSkillTools = True,
      enableUploadTools = True, enableInterrupt = True, enableHumanTool = True\<rparr>"
  "memberConfig ''chatbot'' = Config
     \<lparr>selection = [''chatbot''], enableSkillTools = True, enableUploadTools = True,
      enableInterrupt = True, enableHumanTool = True\<rparr>"
  "memberConfig ''ragbot'' = Config
     \<lparr>selection = [''ragbot''], enableSkillTools = False, enableUploadTools = True,
      enableInterrupt = False, enableHumanTool = False\<rparr>"
  "memberConfig ''workflow'' = Config
     \<lparr>selection = [''ragbot''], enableSkillTools = False, enableUploadTools = True,
      enableInterrupt = False, enableHumanTool = False\<rparr>"
  by (simp_all add: memberConfig_def ALLOWED_MEMBER_CONFIGS_def)

lemma table_keys: "map fst ALLOWED_MEMBER_CONFIGS = MemberTypes"
  by (simp add: ALLOWED_MEMBER_CONFIGS_def MemberTypes_def)

lemma memberConfig_outside:
  assumes "ty \<notin> set MemberTypes"
  shows "memberConfig ty = (if ty \<in> set objectPrototypeKeys then Inherited else Undefined)"
proof -
  have "ty \<notin> fst ` set ALLOWED_MEMBER_CONFIGS"
    using assms table_keys by (metis list.set_map)
  then have "map_of ALLOWED_MEMBER_CONFIGS ty = None"
    by (simp add: map_of_eq_None_iff)
  then show ?thesis by (simp add: memberConfig_def)
qed

lemma reflexive_but_workflow:
  assumes "ty \<in> set MemberTypes" and "ty \<noteq> ''workflow''"
  shows "\<exists>cfg. memberConfig ty = Config cfg \<and> ty \<in> set (selection cfg)"
  using assms by (auto simp: MemberTypes_def memberConfig_enumerated)

text \<open>
  C1 (the claim: every enumerated member type is contained in its own \<open>selection\<close>).
  The table is defined at \<open>workflow\<close>, but the entry lists only \<open>ragbot\<close>: \<open>workflow\<close> is
  an enumerated type that is not a member of its own allowed-transition set. The seven
  other entries contain their own key (\<open>reflexive_but_workflow\<close>).
\<close>

theorem workflow_not_reflexive:
  "''workflow'' \<in> set MemberTypes \<and>
   (\<exists>cfg. memberConfig ''workflow'' = Config cfg \<and> selection cfg = [''ragbot''] \<and>
      ''workflow'' \<notin> set (selection cfg))"
  by (simp add: MemberTypes_def memberConfig_enumerated)

text \<open>
  C4, the claim as stated fails: the lookup of a type outside the enumeration does not
  fail with any error; it evaluates to \<open>undefined\<close>.
\<close>

theorem capabilitiesFor_unknown_counterexample:
  "''manager'' \<notin> set MemberTypes \<and> memberConfig ''manager'' = Undefined"
  by (simp add: MemberTypes_def memberConfig_def ALLOWED_MEMBER_CONFIGS_def
      objectPrototypeKeys_def)

text \<open>
  C4, as the code has it: the lookup returns a profile for each of the eight enumerated
  member types (the entry of the table under that key) and for no other input; outside
  the enumeration the lookup itself raises nothing and yields \<open>undefined\<close> or a member
  inherited from \<open>Object.prototype\<close>, and the failure only appears as a \<open>TypeError\<close> once
  a capability flag of \<open>undefined\<close> is read.
\<close>

theorem capabilitiesFor_total_on_enumeration:
  "(\<forall>ty \<in> set MemberTypes. \<exists>cfg. memberConfig ty = Config cfg \<and>
        (ty, cfg) \<in> set ALLOWED_MEMBER_CONFIGS) \<and>
   (\<forall>ty. ty \<notin> set MemberTypes \<longrightarrow>
        (memberConfig ty = Undefined \<or> memberConfig ty = Inherited) \<and>
        (\<forall>cfg. memberConfig ty \<noteq> Config cfg) \<and>
        (memberConfig ty = Undefined \<longrightarrow> (\<forall>flag. readFlag flag (memberConfig ty) = Inl TypeError)))"
proof (intro conjI ballI allI impI)
  fix ty assume "ty \<in> set MemberTypes"
  then show "\<exists>cfg. memberConfig ty = Config cfg \<and> (ty, cfg) \<in> set ALLOWED_MEMBER_CONFIGS"
    by (auto simp: MemberTypes_def memberConfig_enumerated ALLOWED_MEMBER_CONFIGS_def)
next
  fix ty assume out: "ty \<notin> set MemberTypes"
  show "memberConfig ty = Undefined \<or> memberConfig ty = Inherited"
    by (simp add: memberConfig_outside [OF out])
  show "memberConfig ty \<noteq> Config cfg" for cfg
    by (simp add: memberConfig_outside [OF out])
next
  fix ty flag assume "memberConfig ty = Undefined"
  then show "readFlag flag (memberConfig ty) = Inl TypeError" by simp
qed

theorem capabilitiesFor_total_on_enumeration_witness:
  "''worker'' \<in> set MemberTypes \<and>
   (\<exists>cfg. memberConfig ''worker'' = Config cfg \<and> (''worker'', cfg) \<in> set ALLOWED_MEMBER_CONFIGS) \<and>
   ''manager'' \<notin> set MemberTypes \<and> memberConfig ''manager'' = Undefined \<and>
   readFlag enableSkillTools (memberConfig ''manager'') = Inl TypeError \<and>
   ''toString'' \<notin> set MemberTypes \<and> memberConfig ''toString'' = Inherited"
proof -
  have w: "''worker'' \<in> set MemberTypes" by (simp add: MemberTypes_def)
  have m: "''manager'' \<notin> set MemberTypes" by (simp add: MemberTypes_def)
  have t: "''toString'' \<notin> set MemberTypes" by (simp add: MemberTypes_def)
  have mu: "memberConfig ''manager'' = Undefined"
    by (simp add: memberConfig_def ALLOWED_MEMBER_CONFIGS_def objectPrototypeKeys_def)
  have ti: "memberConfig ''toString'' = Inherited"
    by (simp add: memberConfig_def ALLOWED_MEMBER_CONFIGS_def objectPrototypeKeys_def)
  from capabilitiesFor_total_on_enumeration w m mu ti t show ?thesis by blast
qed

section \<open>Properties of the option resolvers\<close>

lemma filterE_profile:
  "filterE (keepSkill (Config profile)) catalog =
     Inr (filter (\<lambda>skill. skill_name skill \<noteq> ''ask-human'' \<or> enableHumanTool profile) catalog)"
  by (induction catalog) (simp_all add: keepSkill_def bindE_def)

lemma skillOptions_profile:
  "skillOptions (Some catalog) (Config profile) =
     Inr (map skillOption
       (filter (\<lambda>skill. skill_name skill \<noteq> ''ask-human'' \<or> enableHumanTool profile) catalog))"
  by (simp add: skillOptions_def filterE_profile bindE_def)

lemma skill_name_skillOption [simp]: "skill_name (skillOption skill) = skill_name skill"
  by (simp add: skillOption_def)

lemma filter_map_skillOption:
  "filter (\<lambda>opt. P (skill_name opt)) (map skillOption xs) =
     map skillOption (filter (\<lambda>skill. P (skill_name skill)) xs)"
  by (induction xs) simp_all

text \<open>
  C2: for every catalog and every capability profile the option list is resolved without
  error; it holds no option named \<open>ask-human\<close> when \<open>enableHumanTool\<close> is false; when
  \<open>enableHumanTool\<close> is true it holds as many options of that name as the catalog holds
  skills of that name, hence exactly one when the catalog has exactly one; and the
  options of every other name are the catalog's skills of every other name, in catalog
  order, each with its name as label and its id as value.
\<close>

theorem resolveSkillOptions_ask_human:
  "\<exists>opts. skillOptions (Some catalog) (Config profile) = Inr opts \<and>
     (\<not> enableHumanTool profile \<longrightarrow> (\<forall>opt \<in> set opts. skill_name opt \<noteq> ''ask-human'')) \<and>
     (enableHumanTool profile \<longrightarrow>
        length (filter (\<lambda>opt. skill_name opt = ''ask-human'') opts) =
        length (filter (\<lambda>skill. skill_name skill = ''ask-human'') catalog)) \<and>
     (enableHumanTool profile \<longrightarrow>
        length (filter (\<lambda>skill. skill_name skill = ''ask-human'') catalog) = 1 \<longrightarrow>
        length (filter (\<lambda>opt. skill_name opt = ''ask-human'') opts) = 1) \<and>
     filter (\<lambda>opt. skill_name opt \<noteq> ''ask-human'') opts =
       map (\<lambda>skill. skill\<lparr>skill_label := Some (skill_name skill),
                          skill_value := Some (skill_id skill)\<rparr>)
         (filter (\<lambda>skill. skill_name skill \<noteq> ''ask-human'') catalog)"
proof -
  let ?kept = "filter (\<lambda>skill. skill_name skill \<noteq> ''ask-human'' \<or> enableHumanTool profile) catalog"
  let ?opts = "map skillOption ?kept"
  have res: "skillOptions (Some catalog) (Config profile) = Inr ?opts"
    by (rule skillOptions_profile)
  have none: "\<forall>opt \<in> set ?opts. skill_name opt \<noteq> ''ask-human''" if "\<not> enableHumanTool profile"
    using that by auto
  have count: "length (filter (\<lambda>opt. skill_name opt = ''ask-human'') ?opts) =
               length (filter (\<lambda>skill. skill_name skill = ''ask-human'') catalog)"
    if "enableHumanTool profile"
  proof -
    have "filter (\<lambda>opt. skill_name opt = ''ask-human'') ?opts =
          map skillOption (filter (\<lambda>skill. skill_name skill = ''ask-human'') ?kept)"
      by (rule filter_map_skillOption [where P = "\<lambda>n. n = ''ask-human''"])
    also have "filter (\<lambda>skill. skill_name skill = ''ask-human'') ?kept =
               filter (\<lambda>skill. skill_name skill = ''ask-human'') catalog"
      using that by simp
    finally show ?thesis by simp
  qed
  have others: "filter (\<lambda>opt. skill_name opt \<noteq> ''ask-human'') ?opts =
       map (\<lambda>skill. skill\<lparr>skill_label := Some (skill_name skill),
                          skill_value := Some (skill_id skill)\<rparr>)
         (filter (\<lambda>skill. skill_name skill \<noteq> ''ask-human'') catalog)"
  proof -
    have "filter (\<lambda>opt. skill_name opt \<noteq> ''ask-human'') ?opts =
          map skillOption (filter (\<lambda>skill. skill_name skill \<noteq> ''ask-human'') ?kept)"
      by (rule filter_map_skillOption [where P = "\<lambda>n. n \<noteq> ''ask-human''"])
    also have "filter (\<lambda>skill. skill_name skill \<noteq> ''ask-human'') ?kept =
               filter (\<lambda>skill. skill_name skill \<noteq> ''ask-human'') catalog"
      by (simp add: conj_commute cong: conj_cong)
    finally show ?thesis by (simp add: skillOption_def [abs_def])
  qed
  from res none count others show ?thesis by simp
qed

theorem resolveSkillOptions_ask_human_witness:
  "\<not> enableHumanTool
       \<lparr>selection = [''worker'', ''leader''], enableSkillTools = True,
        enableUploadTools = True, enableInterrupt = False, enableHumanTool = False\<rparr> \<and>
   skillOptions (Some scenarioSkills) (memberConfig ''worker'') =
   Inr [\<lparr>skill_id = 1, skill_name = ''search'', skill_description = ''web search'',
         skill_label = Some ''search'', skill_value = Some 1\<rparr>] \<and>
   enableHumanTool
       \<lparr>selection = [''freelancer''], enableSkillTools = True, enableUploadTools = True,
        enableInterrupt = True, enableHumanTool = True\<rparr> \<and>
   length (filter (\<lambda>skill. skill_name skill = ''ask-human'') scenarioSkills) = 1 \<and>
   skillOptions (Some scenarioSkills) (memberConfig ''freelancer'') =
   Inr [\<lparr>skill_id = 1, skill_name = ''search'', skill_description = ''web search'',
         skill_label = Some ''search'', skill_value = Some 1\<rparr>,
        \<lparr>skill_id = 2, skill_name = ''ask-human'', skill_description = ''ask a human'',
         skill_label = Some ''ask-human'', skill_value = Some 2\<rparr>]"
  using
    resolveSkillOptions_ask_human
      [of scenarioSkills
          "\<lparr>selection = [''worker'', ''leader''], enableSkillTools = True,
            enableUploadTools = True, enableInterrupt = False, enableHumanTool = False\<rparr>"]
    resolveSkillOptions_ask_human
      [of scenarioSkills
          "\<lparr>selection = [''freelancer''], enableSkillTools = True, enableUploadTools = True,
            enableInterrupt = True, enableHumanTool = True\<rparr>"]
  by (simp add: memberConfig_enumerated skillOptions_def keepSkill_def bindE_def
      skillOption_def scenarioSkills_def)

section \<open>Properties of model selection\<close>

lemma findModel_Some:
  assumes "findModel models modelName = Some m"
  shows "\<exists>data. models = Some data \<and> m \<in> set data \<and> ai_model_name m = modelName"
  using assms
  by (auto simp: findModel_def find_Some_iff split: option.splits)

text \<open>
  C3: when the lookup by name finds a model, the draft afterwards holds the selected name
  as its model and the provider of the found model as its provider, every other field of
  the draft being unchanged; when the lookup finds nothing, the call changes nothing at
  all. The provider of the draft is written by no other operation of the component than
  this one, together with the model.
\<close>

theorem selectModel_atomic:
  "(\<forall>m. findModel models modelName = Some m \<longrightarrow>
      member_model (formValues (onModelSelect models modelName st)) = Some modelName \<and>
      member_provider (formValues (onModelSelect models modelName st)) =
        Some (provider_name (provider m)) \<and>
      formValues (onModelSelect models modelName st) =
        (formValues st)\<lparr>member_model := Some modelName,
                        member_provider := Some (provider_name (provider m))\<rparr>) \<and>
   (findModel models modelName = None \<longrightarrow> onModelSelect models modelName st = st)"
  by (simp add: onModelSelect_def setValue_def setSelectedModelProvider_def)

theorem selectModel_atomic_witness:
  "findModel (Some scenarioModels) ''gpt-4o'' =
     Some \<lparr>ai_model_name = ''gpt-4o'', provider = \<lparr>provider_name = ''openai''\<rparr>\<rparr> \<and>
   member_model (formValues
     (onModelSelect (Some scenarioModels) ''gpt-4o'' (openSession scenarioMember))) =
     Some ''gpt-4o'' \<and>
   member_provider (formValues
     (onModelSelect (Some scenarioModels) ''gpt-4o'' (openSession scenarioMember))) =
     Some ''openai'' \<and>
   findModel (Some scenarioModels) ''gpt-5'' = None \<and>
   onModelSelect (Some scenarioModels) ''gpt-5'' (openSession scenarioMember) =
     openSession scenarioMember"
  using selectModel_atomic [of "Some scenarioModels" "''gpt-4o''" "openSession scenarioMember"]
    selectModel_atomic [of "Some scenarioModels" "''gpt-5''" "openSession scenarioMember"]
  by (simp add: findModel_def scenarioModels_def)

lemma onModelSelect_keeps_dirty:
  "isDirty (onModelSelect models modelName st) = isDirty st"
  by (simp add: onModelSelect_def setValue_def setSelectedModelProvider_def split: option.splits)

section \<open>Properties of submission\<close>

lemmas handler_defs =
  onSettled_def onClose_def showToast_def emit_def reset_def updateMember_def onSubmit_def

text \<open>
  C5: after a failed submission the draft and the committed values are what they were
  (nothing is reset), the effects of the handler are one error toast, whose description is
  the detail of the error, followed by the invalidation of the member list: the parent's
  \<open>onClose\<close> is not called, so the session stays open, and no request is sent to the
  update endpoint, so nothing is retried. When the server gave a detail string, the toast
  carries exactly that string.
\<close>

theorem submit_failure_keeps_session:
  "formValues (onError teamId err st) = formValues st \<and>
   defaultValues (onError teamId err st) = defaultValues st \<and>
   isDirty (onError teamId err st) = isDirty st \<and>
   mutationLoading (onError teamId err st) = False \<and>
   (\<exists>new. effects (onError teamId err st) = effects st @ new \<and>
      OnClose \<notin> set new \<and>
      (\<forall>i t data. UpdateMember i t data \<notin> set new) \<and>
      length (filter (\<lambda>e. \<exists>title d status. e = ShowToast title d status) new) = 1 \<and>
      (\<forall>b d. body err = Some b \<longrightarrow> detail b = Some d \<longrightarrow>
         new = [ShowToast ''Something went wrong.'' d ''error'', InvalidateQueries teamId]))"
  by (simp add: onError_def handler_defs errDetail_def templateString_def)

theorem submit_failure_keeps_session_witness:
  "body \<lparr>body = Some \<lparr>detail = Some ''duplicate name''\<rparr>\<rparr> = Some \<lparr>detail = Some ''duplicate name''\<rparr> \<and>
   detail \<lparr>detail = Some ''duplicate name''\<rparr> = Some ''duplicate name'' \<and>
   formValues (onError 7 \<lparr>body = Some \<lparr>detail = Some ''duplicate name''\<rparr>\<rparr>
     (handleSubmit scenarioMember 7
        (onChange (\<lambda>v. v\<lparr>member_name := ''planner''\<rparr>) (openSession scenarioMember)))) =
     scenarioMember\<lparr>member_name := ''planner''\<rparr> \<and>
   effects (onError 7 \<lparr>body = Some \<lparr>detail = Some ''duplicate name''\<rparr>\<rparr>
     (handleSubmit scenarioMember 7
        (onChange (\<lambda>v. v\<lparr>member_name := ''planner''\<rparr>) (openSession scenarioMember)))) =
     [UpdateMember 3 7 (scenarioMember\<lparr>member_name := ''planner''\<rparr>),
      ShowToast ''Something went wrong.'' ''duplicate name'' ''error'',
      InvalidateQueries 7]"
  using submit_failure_keeps_session
    [of 7 "\<lparr>body = Some \<lparr>detail = Some ''duplicate name''\<rparr>\<rparr>"
        "handleSubmit scenarioMember 7
           (onChange (\<lambda>v. v\<lparr>member_name := ''planner''\<rparr>) (openSession scenarioMember))"]
  by (simp add: handleSubmit_def isValid_def registeredRules_def endsWith_def modalRules_def
      formErrors_def validateField_def List.map_filter_def namePattern_def onChange_def
      openSession_def initialValues_def scenarioMember_def handler_defs)

text \<open>
  C6: after a successful submission the committed values and the draft are both the
  member returned by the server, so the form is not dirty; the effects of the handler are
  the success toast, the call of the parent's \<open>onClose\<close>, which closes the session, and the
  invalidation of the member list.
\<close>

theorem submit_success_commits:
  "defaultValues (onSuccess teamId data st) = data \<and>
   formValues (onSuccess teamId data st) = data \<and>
   isDirty (onSuccess teamId data st) = False \<and>
   mutationLoading (onSuccess teamId data st) = False \<and>
   effects (onSuccess teamId data st) =
     effects st @ [ShowToast ''Success!'' ''Team updated successfully.'' ''success'',
                   OnClose, InvalidateQueries teamId]"
  by (simp add: onSuccess_def handler_defs)

section \<open>Properties of validation\<close>

lemma formErrors_Cons:
  "formErrors ((f, rs) # rules) v =
     map (Pair f) (validateField rs (fieldValue f v)) @ formErrors rules v"
  by (simp add: formErrors_def)

lemma formErrors_Nil: "formErrors [] v = []"
  by (simp add: formErrors_def)

lemma validateField_Cons:
  "validateField (r # rs) v =
     (case ruleError r v of None \<Rightarrow> validateField rs v | Some m \<Rightarrow> m # validateField rs v)"
  by (cases "ruleError r v") (simp_all add: validateField_def List.map_filter_def)

lemma validateField_Nil: "validateField [] v = []"
  by (simp add: validateField_def List.map_filter_def)

lemmas validation_simps =
  formErrors_Cons formErrors_Nil validateField_Cons validateField_Nil

lemma no_errors_iff:
  "formErrors inlineRules v = [] \<longleftrightarrow>
     member_name v \<noteq> [] \<and> regexTest namePattern (member_name v) \<and>
     member_role v \<noteq> [] \<and> member_temperature v \<noteq> None"
  "formErrors modalRules v = [] \<longleftrightarrow>
     member_name v \<noteq> [] \<and> regexTest namePattern (member_name v) \<and>
     member_role v \<noteq> [] \<and> member_temperature v \<noteq> None"
  by (auto simp: inlineRules_def modalRules_def validation_simps split: option.splits if_splits)

lemma isValid_iff:
  "isValid member st \<longleftrightarrow>
     member_name (formValues st) \<noteq> [] \<and> regexTest namePattern (member_name (formValues st)) \<and>
     member_role (formValues st) \<noteq> [] \<and> member_temperature (formValues st) \<noteq> None"
  by (simp add: isValid_def registeredRules_def no_errors_iff)

text \<open>
  The pattern in the words of the regular expression: between 1 and 64 characters, each a
  letter of the ASCII alphabet, a digit, an underscore or a hyphen.
\<close>

lemma namePattern_iff:
  "regexTest namePattern s \<longleftrightarrow>
     1 \<le> length s \<and> length s \<le> 64 \<and>
     (\<forall>c \<in> set s.
        (97 \<le> (of_char c :: nat) \<and> (of_char c :: nat) \<le> 122) \<or>
        (65 \<le> (of_char c :: nat) \<and> (of_char c :: nat) \<le> 90) \<or>
        (48 \<le> (of_char c :: nat) \<and> (of_char c :: nat) \<le> 57) \<or>
        c = CHR ''_'' \<or> c = CHR ''-'')"
  by (simp add: namePattern_def list_all_iff)

lemma submit_button_disabled:
  assumes "EditTeamMember member isOpen skills uploads st = Inr v"
    and "SaveButton l d \<in> set (controlsOf v)"
  shows "d = (\<not> isDirty st \<or> \<not> isValid member st)"
  using assms
  by (auto simp: EditTeamMember_def inlineView_def modalView_def bindE_def Let_def
      split: sum.splits if_splits)

text \<open>
  C7: when the name of the draft is missing or does not match the pattern, or the role is
  empty, or the temperature is absent, the form is not valid, the save button of a
  rendered view is disabled, and submitting leaves the session as it is: no request is
  sent to the update endpoint.
\<close>

theorem invalid_draft_blocks_submission:
  assumes "member_name (formValues st) = [] \<or>
           \<not> regexTest namePattern (member_name (formValues st)) \<or>
           member_role (formValues st) = [] \<or>
           member_temperature (formValues st) = None"
  shows "\<not> isValid member st \<and>
         handleSubmit member teamId st = st \<and>
         effects (handleSubmit member teamId st) = effects st \<and>
         (\<forall>isOpen skills uploads v l d.
            EditTeamMember member isOpen skills uploads st = Inr v \<longrightarrow>
            SaveButton l d \<in> set (controlsOf v) \<longrightarrow> d)"
proof -
  have invalid: "\<not> isValid member st"
    using assms by (auto simp: isValid_iff)
  then have blocked: "handleSubmit member teamId st = st"
    by (simp add: handleSubmit_def)
  have "d" if "EditTeamMember member isOpen skills uploads st = Inr v"
    and "SaveButton l d \<in> set (controlsOf v)" for isOpen skills uploads v l d
    using submit_button_disabled [OF that] invalid by simp
  with invalid blocked show ?thesis by auto
qed

theorem invalid_draft_blocks_submission_witness:
  "\<not> regexTest namePattern ''bad name!'' \<and>
   \<not> isValid scenarioMember
       (onChange (\<lambda>v. v\<lparr>member_name := ''bad name!''\<rparr>) (openSession scenarioMember)) \<and>
   effects (handleSubmit scenarioMember 7
       (onChange (\<lambda>v. v\<lparr>member_name := ''bad name!''\<rparr>) (openSession scenarioMember))) = [] \<and>
   EditTeamMember scenarioMember True (Some scenarioSkills) None
       (onChange (\<lambda>v. v\<lparr>member_name := ''bad name!''\<rparr>) (openSession scenarioMember)) =
     Inr (ModalDialog True
       [TypeSelect False [''worker'', ''leader''], NameInput, RoleTextarea, BackstoryTextarea,
        ModelSelect (Some ''glm-4'') ''openai'',
        SkillsMultiSelect False
          [\<lparr>skill_id = 1, skill_name = ''search'', skill_description = ''web search'',
            skill_label = Some ''search'', skill_value = Some 1\<rparr>],
        UploadsMultiSelect False [],
        TemperatureSlider 0, SaveButton False True, CancelButton])"
proof -
  let ?st = "onChange (\<lambda>v. v\<lparr>member_name := ''bad name!''\<rparr>) (openSession scenarioMember)"
  have bad: "\<not> regexTest namePattern ''bad name!''"
    by (simp add: namePattern_def)
  have name: "member_name (formValues ?st) = ''bad name!''"
    by (simp add: onChange_def openSession_def)
  have hyp: "member_name (formValues ?st) = [] \<or>
           \<not> regexTest namePattern (member_name (formValues ?st)) \<or>
           member_role (formValues ?st) = [] \<or>
           member_temperature (formValues ?st) = None"
    using bad name by simp
  have eff: "effects ?st = []"
    by (simp add: onChange_def openSession_def)
  have ty: "member_type (formValues ?st) = ''worker''" "member_type scenarioMember = ''worker''"
    "member_model scenarioMember = Some ''glm-4''" "selectedModelProvider ?st = ''openai''"
    "member_temperature (formValues ?st) = Some 0" "isSubmitting ?st = False"
    "mutationLoading ?st = False"
    by (simp_all add: onChange_def openSession_def initialValues_def scenarioMember_def)
  note blocked = invalid_draft_blocks_submission [OF hyp, of scenarioMember 7]
  have render: "EditTeamMember scenarioMember True (Some scenarioSkills) None ?st =
     Inr (ModalDialog True
       [TypeSelect False [''worker'', ''leader''], NameInput, RoleTextarea, BackstoryTextarea,
        ModelSelect (Some ''glm-4'') ''openai'',
        SkillsMultiSelect False
          [\<lparr>skill_id = 1, skill_name = ''search'', skill_description = ''web search'',
            skill_label = Some ''search'', skill_value = Some 1\<rparr>],
        UploadsMultiSelect False [],
        TemperatureSlider 0, SaveButton False True, CancelButton])"
    using blocked
    by (simp add: EditTeamMember_def ty memberConfig_enumerated skillOptions_def
        scenarioSkills_def keepSkill_def bindE_def skillOption_def uploadOptions_def
        endsWith_def startsWith_def modalView_def typeDisabled_def sliderValue_def)
  from bad blocked eff render show ?thesis by simp
qed

section \<open>Properties of rendering\<close>

lemma skillOptions_total:
  "\<exists>opts. skillOptions skills (Config cfg) = Inr opts"
proof (cases skills)
  case None
  then show ?thesis by (simp add: skillOptions_def)
next
  case (Some catalog)
  then show ?thesis by (simp add: skillOptions_profile)
qed

lemma render_total:
  assumes "member_type (formValues st) \<in> set MemberTypes"
  shows "\<exists>v. EditTeamMember member isOpen skills uploads st = Inr v"
proof -
  from assms obtain cfg where cfg: "memberConfig (member_type (formValues st)) = Config cfg"
    by (auto simp: MemberTypes_def memberConfig_enumerated)
  obtain opts where opts: "skillOptions skills (Config cfg) = Inr opts"
    using skillOptions_total by blast
  have i: "\<exists>v. inlineView (Config cfg) member st opts (uploadOptions uploads) = Inr v"
    by (simp add: inlineView_def bindE_def)
  have m: "\<exists>v. modalView (Config cfg) member isOpen st opts (uploadOptions uploads) = Inr v"
    by (simp add: modalView_def bindE_def)
  show ?thesis
    using i m by (auto simp: EditTeamMember_def cfg opts bindE_def Let_def)
qed

lemma bindE_Inr: "bindE r f = Inr v \<longleftrightarrow> (\<exists>x. r = Inr x \<and> f x = Inr v)"
  by (cases r) (simp_all add: bindE_def)

lemma render_inline:
  assumes "EditTeamMember member isOpen skills uploads st = Inr v"
    and "endsWith (member_type member) ''bot''"
  shows "\<exists>opts. inlineView (memberConfig (member_type (formValues st))) member st opts
           (uploadOptions uploads) = Inr v"
  using assms by (simp add: EditTeamMember_def bindE_Inr Let_def) blast

lemma render_modal:
  assumes "EditTeamMember member isOpen skills uploads st = Inr v"
    and "\<not> endsWith (member_type member) ''bot''"
  shows "\<exists>opts. modalView (memberConfig (member_type (formValues st))) member isOpen st opts
           (uploadOptions uploads) = Inr v"
  using assms by (simp add: EditTeamMember_def bindE_Inr Let_def) blast

lemma inlineView_controls:
  assumes "inlineView mc member st so uo = Inr v"
  shows "\<exists>skillsOn uploadsOn interruptOn.
     readFlag enableSkillTools mc = Inr skillsOn \<and>
     readFlag enableUploadTools mc = Inr uploadsOn \<and>
     readFlag enableInterrupt mc = Inr interruptOn \<and>
     v = InlinePanel
         ([NameInput, RoleTextarea, BackstoryTextarea,
           ModelSelect (member_model member) (selectedModelProvider st)]
          @ (if skillsOn then [SkillsMultiSelect False so] else [])
          @ (if uploadsOn then [UploadsMultiSelect False uo] else [])
          @ (if interruptOn then [InterruptCheckbox] else [])
          @ [TemperatureSlider (sliderValue st)])"
proof -
  from assms obtain a b c where
    "readFlag enableSkillTools mc = Inr a" "readFlag enableUploadTools mc = Inr b"
    "readFlag enableInterrupt mc = Inr c"
    "Inr (InlinePanel
         ([NameInput, RoleTextarea, BackstoryTextarea,
           ModelSelect (member_model member) (selectedModelProvider st)]
          @ (if a then [SkillsMultiSelect False so] else [])
          @ (if b then [UploadsMultiSelect False uo] else [])
          @ (if c then [InterruptCheckbox] else [])
          @ [TemperatureSlider (sliderValue st)])) = (Inr v :: error + view)"
    unfolding inlineView_def bindE_Inr by blast
  then show ?thesis by blast
qed

lemma modalView_controls:
  assumes "modalView mc member isOpen st so uo = Inr v"
  shows "\<exists>options skillsOn uploadsOn interruptOn.
     readSelection mc = Inr options \<and>
     readFlag enableSkillTools mc = Inr skillsOn \<and>
     readFlag enableUploadTools mc = Inr uploadsOn \<and>
     readFlag enableInterrupt mc = Inr interruptOn \<and>
     v = ModalDialog isOpen
         ([TypeSelect (typeDisabled member) options,
           NameInput, RoleTextarea, BackstoryTextarea,
           ModelSelect (member_model member) (selectedModelProvider st)]
          @ (if skillsOn then [SkillsMultiSelect False so] else [])
          @ (if uploadsOn then [UploadsMultiSelect False uo] else [])
          @ (if interruptOn then [InterruptCheckbox] else [])
          @ [TemperatureSlider (sliderValue st),
             SaveButton (isSubmitting st \<or> mutationLoading st)
               (\<not> isDirty st \<or> \<not> isValid member st),
             CancelButton])"
proof -
  from assms obtain options a b c where
    r: "readSelection mc = Inr options" "readFlag enableSkillTools mc = Inr a"
    "readFlag enableUploadTools mc = Inr b" "readFlag enableInterrupt mc = Inr c" and
    v: "Inr (ModalDialog isOpen
         ([TypeSelect (typeDisabled member) options,
           NameInput, RoleTextarea, BackstoryTextarea,
           ModelSelect (member_model member) (selectedModelProvider st)]
          @ (if a then [SkillsMultiSelect (\<not> a) so] else [])
          @ (if b then [UploadsMultiSelect (\<not> b) uo] else [])
          @ (if c then [InterruptCheckbox] else [])
          @ [TemperatureSlider (sliderValue st),
             SaveButton (isSubmitting st \<or> mutationLoading st)
               (\<not> isDirty st \<or> \<not> isValid member st),
             CancelButton])) = (Inr v :: error + view)"
    unfolding modalView_def bindE_Inr by blast
  have "(if a then [SkillsMultiSelect (\<not> a) so] else []) =
        (if a then [SkillsMultiSelect False so] else [])"
    "(if b then [UploadsMultiSelect (\<not> b) uo] else []) =
        (if b then [UploadsMultiSelect False uo] else [])"
    by simp_all
  with v have "v = ModalDialog isOpen
         ([TypeSelect (typeDisabled member) options,
           NameInput, RoleTextarea, BackstoryTextarea,
           ModelSelect (member_model member) (selectedModelProvider st)]
          @ (if a then [SkillsMultiSelect False so] else [])
          @ (if b then [UploadsMultiSelect False uo] else [])
          @ (if c then [InterruptCheckbox] else [])
          @ [TemperatureSlider (sliderValue st),
             SaveButton (isSubmitting st \<or> mutationLoading st)
               (\<not> isDirty st \<or> \<not> isValid member st),
             CancelButton])"
    by simp
  with r show ?thesis by blast
qed

lemma same_rules: "formErrors inlineRules v = formErrors modalRules v"
  by (simp add: inlineRules_def modalRules_def validation_simps)

lemma same_capability_controls:
  assumes "inlineView mc member st so uo = Inr v1"
    and "modalView mc member isOpen st so uo = Inr v2"
  shows "filter isCapabilityControl (controlsOf v1) = filter isCapabilityControl (controlsOf v2)"
proof -
  from inlineView_controls [OF assms(1)] obtain a b c where
    f1: "readFlag enableSkillTools mc = Inr a" "readFlag enableUploadTools mc = Inr b"
      "readFlag enableInterrupt mc = Inr c" and
    v1: "v1 = InlinePanel
         ([NameInput, RoleTextarea, BackstoryTextarea,
           ModelSelect (member_model member) (selectedModelProvider st)]
          @ (if a then [SkillsMultiSelect False so] else [])
          @ (if b then [UploadsMultiSelect False uo] else [])
          @ (if c then [InterruptCheckbox] else [])
          @ [TemperatureSlider (sliderValue st)])" by blast
  from modalView_controls [OF assms(2)] obtain options a' b' c' where
    f2: "readFlag enableSkillTools mc = Inr a'" "readFlag enableUploadTools mc = Inr b'"
      "readFlag enableInterrupt mc = Inr c'" and
    v2: "v2 = ModalDialog isOpen
         ([TypeSelect (typeDisabled member) options,
           NameInput, RoleTextarea, BackstoryTextarea,
           ModelSelect (member_model member) (selectedModelProvider st)]
          @ (if a' then [SkillsMultiSelect False so] else [])
          @ (if b' then [UploadsMultiSelect False uo] else [])
          @ (if c' then [InterruptCheckbox] else [])
          @ [TemperatureSlider (sliderValue st),
             SaveButton (isSubmitting st \<or> mutationLoading st)
               (\<not> isDirty st \<or> \<not> isValid member st),
             CancelButton])" by blast
  from f1 f2 have "a' = a" "b' = b" "c' = c" by simp_all
  then show ?thesis unfolding v1 v2 by simp
qed

lemma inline_shape:
  assumes "EditTeamMember member isOpen skills uploads st = Inr v"
    and "endsWith (member_type member) ''bot''"
  shows "isInline v \<and> (\<forall>l d. SaveButton l d \<notin> set (controlsOf v)) \<and>
         CancelButton \<notin> set (controlsOf v) \<and>
         (\<forall>d opts. TypeSelect d opts \<notin> set (controlsOf v))"
proof -
  from render_inline [OF assms] obtain opts where
    iv: "inlineView (memberConfig (member_type (formValues st))) member st opts
         (uploadOptions uploads) = Inr v" by blast
  from inlineView_controls [OF iv] obtain a b c where
    "v = InlinePanel
         ([NameInput, RoleTextarea, BackstoryTextarea,
           ModelSelect (member_model member) (selectedModelProvider st)]
          @ (if a then [SkillsMultiSelect False opts] else [])
          @ (if b then [UploadsMultiSelect False (uploadOptions uploads)] else [])
          @ (if c then [InterruptCheckbox] else [])
          @ [TemperatureSlider (sliderValue st)])" by blast
  then show ?thesis by simp
qed

lemma modal_shape:
  assumes "EditTeamMember member isOpen skills uploads st = Inr v"
    and "\<not> endsWith (member_type member) ''bot''"
  shows "\<not> isInline v \<and> (\<exists>cs. v = ModalDialog isOpen cs) \<and>
         SaveButton (isSubmitting st \<or> mutationLoading st)
           (\<not> isDirty st \<or> \<not> isValid member st) \<in> set (controlsOf v) \<and>
         CancelButton \<in> set (controlsOf v) \<and>
         (\<exists>options. readSelection (memberConfig (member_type (formValues st))) = Inr options \<and>
            (\<forall>d opts. TypeSelect d opts \<in> set (controlsOf v) \<longleftrightarrow>
               d = typeDisabled member \<and> opts = options))"
proof -
  from render_modal [OF assms] obtain so where
    mv: "modalView (memberConfig (member_type (formValues st))) member isOpen st so
         (uploadOptions uploads) = Inr v" by blast
  from modalView_controls [OF mv] obtain options a b c where
    sel: "readSelection (memberConfig (member_type (formValues st))) = Inr options" and
    v: "v = ModalDialog isOpen
         ([TypeSelect (typeDisabled member) options,
           NameInput, RoleTextarea, BackstoryTextarea,
           ModelSelect (member_model member) (selectedModelProvider st)]
          @ (if a then [SkillsMultiSelect False so] else [])
          @ (if b then [UploadsMultiSelect False (uploadOptions uploads)] else [])
          @ (if c then [InterruptCheckbox] else [])
          @ [TemperatureSlider (sliderValue st),
             SaveButton (isSubmitting st \<or> mutationLoading st)
               (\<not> isDirty st \<or> \<not> isValid member st),
             CancelButton])" by blast
  have ts: "(TypeSelect d opts \<in> set (controlsOf v)) = (d = typeDisabled member \<and> opts = options)"
    for d opts
    unfolding v by (cases a; cases b; cases c) auto
  have rest: "\<not> isInline v" "\<exists>cs. v = ModalDialog isOpen cs"
    "SaveButton (isSubmitting st \<or> mutationLoading st)
           (\<not> isDirty st \<or> \<not> isValid member st) \<in> set (controlsOf v)"
    "CancelButton \<in> set (controlsOf v)"
    unfolding v by simp_all
  from sel ts rest show ?thesis by blast
qed

text \<open>
  C8: the view is chosen by the type of the member alone. A rendered view is the inline
  panel exactly when the type ends with \<open>bot\<close>; the panel has neither a save nor a cancel
  button; otherwise the view is the modal dialog, with its save and its cancel button.
  Rendering succeeds whenever the type held by the form is one of the eight. The choice
  changes neither validation nor capabilities: the rules registered by the two views
  report the same errors for every draft, and for the same profile and state the two
  views show the same capability-gated controls.
\<close>

theorem view_selection_by_type_suffix:
  "(member_type (formValues st) \<in> set MemberTypes \<longrightarrow>
      (\<exists>v. EditTeamMember member isOpen skills uploads st = Inr v)) \<and>
   (\<forall>v. EditTeamMember member isOpen skills uploads st = Inr v \<longrightarrow>
      (isInline v \<longleftrightarrow> endsWith (member_type member) ''bot'') \<and>
      (isInline v \<longrightarrow>
         (\<forall>l d. SaveButton l d \<notin> set (controlsOf v)) \<and> CancelButton \<notin> set (controlsOf v)) \<and>
      (\<not> isInline v \<longrightarrow>
         (\<exists>cs. v = ModalDialog isOpen cs) \<and>
         SaveButton (isSubmitting st \<or> mutationLoading st)
           (\<not> isDirty st \<or> \<not> isValid member st) \<in> set (controlsOf v) \<and>
         CancelButton \<in> set (controlsOf v))) \<and>
   (\<forall>draft. formErrors inlineRules draft = formErrors modalRules draft) \<and>
   (\<forall>mc so uo v1 v2.
      inlineView mc member st so uo = Inr v1 \<longrightarrow>
      modalView mc member isOpen st so uo = Inr v2 \<longrightarrow>
      filter isCapabilityControl (controlsOf v1) = filter isCapabilityControl (controlsOf v2))"
proof -
  have total: "member_type (formValues st) \<in> set MemberTypes \<longrightarrow>
      (\<exists>v. EditTeamMember member isOpen skills uploads st = Inr v)"
    using render_total by blast
  have kind: "(isInline v \<longleftrightarrow> endsWith (member_type member) ''bot'') \<and>
      (isInline v \<longrightarrow>
         (\<forall>l d. SaveButton l d \<notin> set (controlsOf v)) \<and> CancelButton \<notin> set (controlsOf v)) \<and>
      (\<not> isInline v \<longrightarrow>
         (\<exists>cs. v = ModalDialog isOpen cs) \<and>
         SaveButton (isSubmitting st \<or> mutationLoading st)
           (\<not> isDirty st \<or> \<not> isValid member st) \<in> set (controlsOf v) \<and>
         CancelButton \<in> set (controlsOf v))"
    if r: "EditTeamMember member isOpen skills uploads st = Inr v" for v
  proof (cases "endsWith (member_type member) ''bot''")
    case True
    from inline_shape [OF r True] True show ?thesis by blast
  next
    case False
    from modal_shape [OF r False] False show ?thesis by blast
  qed
  have caps: "filter isCapabilityControl (controlsOf v1) = filter isCapabilityControl (controlsOf v2)"
    if "inlineView mc member st so uo = Inr v1" "modalView mc member isOpen st so uo = Inr v2"
    for mc so uo v1 v2
    using that by (rule same_capability_controls)
  from total kind same_rules caps show ?thesis by blast
qed

theorem view_selection_by_type_suffix_witness:
  "member_type (formValues (openSession scenarioMember)) \<in> set MemberTypes \<and>
   \<not> endsWith (member_type scenarioMember) ''bot'' \<and>
   (\<exists>cs. EditTeamMember scenarioMember True (Some scenarioSkills) None
            (openSession scenarioMember) = Inr (ModalDialog True cs) \<and>
          CancelButton \<in> set cs \<and> SaveButton False True \<in> set cs) \<and>
   endsWith (member_type (scenarioMember\<lparr>member_type := ''chatbot''\<rparr>)) ''bot'' \<and>
   (\<exists>cs. EditTeamMember (scenarioMember\<lparr>member_type := ''chatbot''\<rparr>) True
            (Some scenarioSkills) None
            (openSession (scenarioMember\<lparr>member_type := ''chatbot''\<rparr>)) = Inr (InlinePanel cs) \<and>
          CancelButton \<notin> set cs)"
proof -
  let ?bot = "scenarioMember\<lparr>member_type := ''chatbot''\<rparr>"
  have t1: "member_type (formValues (openSession scenarioMember)) = ''worker''"
    "member_type scenarioMember = ''worker''"
    by (simp_all add: openSession_def initialValues_def scenarioMember_def)
  have t2: "member_type (formValues (openSession ?bot)) = ''chatbot''"
    "member_type ?bot = ''chatbot''"
    by (simp_all add: openSession_def initialValues_def)
  have in1: "member_type (formValues (openSession scenarioMember)) \<in> set MemberTypes"
    and in2: "member_type (formValues (openSession ?bot)) \<in> set MemberTypes"
    by (simp_all add: t1 t2 MemberTypes_def)
  have e1: "\<not> endsWith (member_type scenarioMember) ''bot''"
    and e2: "endsWith (member_type ?bot) ''bot''"
    by (simp_all add: t1 t2 endsWith_def)
  have clean: "isDirty (openSession scenarioMember) = False"
    "isSubmitting (openSession scenarioMember) = False"
    "mutationLoading (openSession scenarioMember) = False"
    by (simp_all add: openSession_def)
  note a = view_selection_by_type_suffix
    [of "openSession scenarioMember" scenarioMember True "Some scenarioSkills" None]
  note b = view_selection_by_type_suffix
    [of "openSession ?bot" ?bot True "Some scenarioSkills" None]
  from a in1 obtain v1 where
    v1: "EditTeamMember scenarioMember True (Some scenarioSkills) None
           (openSession scenarioMember) = Inr v1" by blast
  with a e1 obtain cs1 where "v1 = ModalDialog True cs1" "CancelButton \<in> set (controlsOf v1)"
    "SaveButton (isSubmitting (openSession scenarioMember) \<or>
                 mutationLoading (openSession scenarioMember))
       (\<not> isDirty (openSession scenarioMember) \<or>
        \<not> isValid scenarioMember (openSession scenarioMember)) \<in> set (controlsOf v1)"
    by blast
  with v1 clean have p1: "\<exists>cs. EditTeamMember scenarioMember True (Some scenarioSkills) None
            (openSession scenarioMember) = Inr (ModalDialog True cs) \<and>
          CancelButton \<in> set cs \<and> SaveButton False True \<in> set cs"
    by simp
  from b in2 obtain v2 where
    v2: "EditTeamMember ?bot True (Some scenarioSkills) None (openSession ?bot) = Inr v2"
    by blast
  with b e2 have "isInline v2" "CancelButton \<notin> set (controlsOf v2)" by blast+
  then obtain cs2 where "v2 = InlinePanel cs2" "CancelButton \<notin> set cs2"
    by (cases v2) simp_all
  with v2 have p2: "\<exists>cs. EditTeamMember ?bot True (Some scenarioSkills) None
            (openSession ?bot) = Inr (InlinePanel cs) \<and> CancelButton \<notin> set cs"
    by simp
  from in1 e1 p1 e2 p2 show ?thesis by blast
qed

lemma typeDisabled_enumerated:
  "typeDisabled (m\<lparr>member_type := ''root''\<rparr>)"
  "\<not> typeDisabled (m\<lparr>member_type := ''leader''\<rparr>)"
  "\<not> typeDisabled (m\<lparr>member_type := ''worker''\<rparr>)"
  "typeDisabled (m\<lparr>member_type := ''freelancer''\<rparr>)"
  "typeDisabled (m\<lparr>member_type := ''freelancer_root''\<rparr>)"
  "typeDisabled (m\<lparr>member_type := ''chatbot''\<rparr>)"
  "typeDisabled (m\<lparr>member_type := ''ragbot''\<rparr>)"
  "\<not> typeDisabled (m\<lparr>member_type := ''workflow''\<rparr>)"
  by (simp_all add: typeDisabled_def startsWith_def endsWith_def)

lemma isTypeSelect_iff: "isTypeSelect c \<longleftrightarrow> (\<exists>d opts. c = TypeSelect d opts)"
  by (cases c) simp_all

lemma inline_no_type_select:
  assumes "EditTeamMember member isOpen skills uploads st = Inr v"
    and "endsWith (member_type member) ''bot''"
  shows "filter isTypeSelect (controlsOf v) = []"
proof -
  from inline_shape [OF assms] have "\<forall>d opts. TypeSelect d opts \<notin> set (controlsOf v)"
    by blast
  then have "\<forall>c \<in> set (controlsOf v). \<not> isTypeSelect c"
    by (auto simp: isTypeSelect_iff)
  then show ?thesis by (simp add: filter_empty_conv)
qed

lemma modal_one_type_select:
  assumes "EditTeamMember member isOpen skills uploads st = Inr v"
    and "\<not> endsWith (member_type member) ''bot''"
  shows "\<exists>cfg. memberConfig (member_type (formValues st)) = Config cfg \<and>
           filter isTypeSelect (controlsOf v) = [TypeSelect (typeDisabled member) (selection cfg)]"
proof -
  from render_modal [OF assms] obtain so where
    mv: "modalView (memberConfig (member_type (formValues st))) member isOpen st so
         (uploadOptions uploads) = Inr v" by blast
  from modalView_controls [OF mv] obtain options a b c where
    sel: "readSelection (memberConfig (member_type (formValues st))) = Inr options" and
    v: "v = ModalDialog isOpen
         ([TypeSelect (typeDisabled member) options,
           NameInput, RoleTextarea, BackstoryTextarea,
           ModelSelect (member_model member) (selectedModelProvider st)]
          @ (if a then [SkillsMultiSelect False so] else [])
          @ (if b then [UploadsMultiSelect False (uploadOptions uploads)] else [])
          @ (if c then [InterruptCheckbox] else [])
          @ [TemperatureSlider (sliderValue st),
             SaveButton (isSubmitting st \<or> mutationLoading st)
               (\<not> isDirty st \<or> \<not> isValid member st),
             CancelButton])" by blast
  from sel obtain cfg where
    cfg: "memberConfig (member_type (formValues st)) = Config cfg" "options = selection cfg"
    by (cases "memberConfig (member_type (formValues st))") simp_all
  have "filter isTypeSelect (controlsOf v) = [TypeSelect (typeDisabled member) options]"
    unfolding v by simp
  with cfg show ?thesis by simp
qed

text \<open>
  C9, the claim as stated fails: for a member whose type ends with \<open>bot\<close> there is no
  disabled type selection, since the inline panel that is rendered for it has no type
  selection at all.
\<close>

theorem type_selection_absent_counterexample:
  "endsWith (member_type (scenarioMember\<lparr>member_type := ''chatbot''\<rparr>)) ''bot'' \<and>
   EditTeamMember (scenarioMember\<lparr>member_type := ''chatbot''\<rparr>) True None None
     (openSession (scenarioMember\<lparr>member_type := ''chatbot''\<rparr>)) =
     Inr (InlinePanel
       [NameInput, RoleTextarea, BackstoryTextarea, ModelSelect (Some ''glm-4'') ''openai'',
        SkillsMultiSelect False [], UploadsMultiSelect False [], InterruptCheckbox,
        TemperatureSlider 0]) \<and>
   filter isTypeSelect
       [NameInput, RoleTextarea, BackstoryTextarea, ModelSelect (Some ''glm-4'') ''openai'',
        SkillsMultiSelect False [], UploadsMultiSelect False [], InterruptCheckbox,
        TemperatureSlider 0] = []"
  by (simp add: EditTeamMember_def openSession_def initialValues_def scenarioMember_def
      memberConfig_enumerated skillOptions_def bindE_def uploadOptions_def endsWith_def
      inlineView_def sliderValue_def)

text \<open>
  C9, as the code has it: a type selection is rendered only in the modal dialog, that is
  for a member whose type does not end with \<open>bot\<close>; the dialog shows exactly one, which is
  disabled exactly when the type of the member is \<open>root\<close> or starts with \<open>freelancer\<close>,
  enabled otherwise, and whose options are exactly the \<open>selection\<close> of the profile of the
  type currently held by the form. For a member whose type ends with \<open>bot\<close> the inline
  panel shows no type selection. Rendering succeeds whenever the type held by the form is
  one of the eight.
\<close>

theorem type_selection_in_dialog:
  "(member_type (formValues st) \<in> set MemberTypes \<longrightarrow>
      (\<exists>v. EditTeamMember member isOpen skills uploads st = Inr v)) \<and>
   (\<forall>v. EditTeamMember member isOpen skills uploads st = Inr v \<longrightarrow>
      (endsWith (member_type member) ''bot'' \<longrightarrow> filter isTypeSelect (controlsOf v) = []) \<and>
      (\<not> endsWith (member_type member) ''bot'' \<longrightarrow>
         (\<exists>cfg. memberConfig (member_type (formValues st)) = Config cfg \<and>
            filter isTypeSelect (controlsOf v) =
              [TypeSelect (member_type member = ''root'' \<or>
                           startsWith (member_type member) ''freelancer'')
                 (selection cfg)])))"
proof -
  have total: "member_type (formValues st) \<in> set MemberTypes \<longrightarrow>
      (\<exists>v. EditTeamMember member isOpen skills uploads st = Inr v)"
    using render_total by blast
  have panel: "filter isTypeSelect (controlsOf v) = []"
    if "EditTeamMember member isOpen skills uploads st = Inr v"
      and "endsWith (member_type member) ''bot''" for v
    using that by (rule inline_no_type_select)
  have dialog: "\<exists>cfg. memberConfig (member_type (formValues st)) = Config cfg \<and>
            filter isTypeSelect (controlsOf v) =
              [TypeSelect (member_type member = ''root'' \<or>
                           startsWith (member_type member) ''freelancer'')
                 (selection cfg)]"
    if r: "EditTeamMember member isOpen skills uploads st = Inr v"
      and nb: "\<not> endsWith (member_type member) ''bot''" for v
  proof -
    from nb have "typeDisabled member =
        (member_type member = ''root'' \<or> startsWith (member_type member) ''freelancer'')"
      by (simp add: typeDisabled_def)
    with modal_one_type_select [OF r nb] show ?thesis by simp
  qed
  from total panel dialog show ?thesis by blast
qed

theorem type_selection_in_dialog_witness:
  "(\<exists>v. EditTeamMember (scenarioMember\<lparr>member_type := ''root''\<rparr>) True None None
          (openSession (scenarioMember\<lparr>member_type := ''root''\<rparr>)) = Inr v \<and>
        filter isTypeSelect (controlsOf v) = [TypeSelect True [''root'']]) \<and>
   (\<exists>v. EditTeamMember (scenarioMember\<lparr>member_type := ''freelancer''\<rparr>) True None None
          (openSession (scenarioMember\<lparr>member_type := ''freelancer''\<rparr>)) = Inr v \<and>
        filter isTypeSelect (controlsOf v) = [TypeSelect True [''freelancer'']]) \<and>
   (\<exists>v. EditTeamMember scenarioMember True None None (openSession scenarioMember) = Inr v \<and>
        filter isTypeSelect (controlsOf v) = [TypeSelect False [''worker'', ''leader'']]) \<and>
   (\<exists>v. EditTeamMember (scenarioMember\<lparr>member_type := ''ragbot''\<rparr>) True None None
          (openSession (scenarioMember\<lparr>member_type := ''ragbot''\<rparr>)) = Inr v \<and>
        filter isTypeSelect (controlsOf v) = [])"
proof -
  let ?root = "scenarioMember\<lparr>member_type := ''root''\<rparr>"
  let ?free = "scenarioMember\<lparr>member_type := ''freelancer''\<rparr>"
  let ?bot = "scenarioMember\<lparr>member_type := ''ragbot''\<rparr>"
  have ty: "member_type (formValues (openSession ?root)) = ''root''"
    "member_type ?root = ''root''"
    "member_type (formValues (openSession ?free)) = ''freelancer''"
    "member_type ?free = ''freelancer''"
    "member_type (formValues (openSession scenarioMember)) = ''worker''"
    "member_type scenarioMember = ''worker''"
    "member_type (formValues (openSession ?bot)) = ''ragbot''"
    "member_type ?bot = ''ragbot''"
    by (simp_all add: openSession_def initialValues_def scenarioMember_def)
  have r: "\<exists>v. EditTeamMember ?root True None None (openSession ?root) = Inr v \<and>
        filter isTypeSelect (controlsOf v) = [TypeSelect True [''root'']]"
    using type_selection_in_dialog [of "openSession ?root" ?root True None None]
    by (simp only: ty) (auto simp: MemberTypes_def endsWith_def startsWith_def
        memberConfig_enumerated)
  have f: "\<exists>v. EditTeamMember ?free True None None (openSession ?free) = Inr v \<and>
        filter isTypeSelect (controlsOf v) = [TypeSelect True [''freelancer'']]"
    using type_selection_in_dialog [of "openSession ?free" ?free True None None]
    by (simp only: ty) (auto simp: MemberTypes_def endsWith_def startsWith_def
        memberConfig_enumerated)
  have w: "\<exists>v. EditTeamMember scenarioMember True None None (openSession scenarioMember) = Inr v \<and>
        filter isTypeSelect (controlsOf v) = [TypeSelect False [''worker'', ''leader'']]"
    using type_selection_in_dialog
      [of "openSession scenarioMember" scenarioMember True None None]
    by (simp only: ty) (auto simp: MemberTypes_def endsWith_def startsWith_def
        memberConfig_enumerated)
  have b: "\<exists>v. EditTeamMember ?bot True None None (openSession ?bot) = Inr v \<and>
        filter isTypeSelect (controlsOf v) = []"
    using type_selection_in_dialog [of "openSession ?bot" ?bot True None None]
    by (simp only: ty) (auto simp: MemberTypes_def endsWith_def startsWith_def
        memberConfig_enumerated)
  from r f w b show ?thesis by blast
qed

section \<open>Properties of the selected provider\<close>

lemma modelEffect_provider:
  assumes "selectedModelProvider (modelEffect member models st) \<noteq> selectedModelProvider st"
  shows "\<exists>data m. models = Some data \<and> m \<in> set data \<and>
           member_model member = Some (ai_model_name m) \<and>
           selectedModelProvider (modelEffect member models st) = provider_name (provider m)"
proof (cases "member_model member")
  case None
  with assms show ?thesis by (simp add: modelEffect_def)
next
  case (Some name)
  have ne: "name \<noteq> []"
    using assms Some by (auto simp: modelEffect_def)
  show ?thesis
  proof (cases "findModel models name")
    case None
    with assms Some ne show ?thesis by (simp add: modelEffect_def)
  next
    case found: (Some m)
    from findModel_Some [OF found] obtain data where
      d: "models = Some data" "m \<in> set data" "ai_model_name m = name" by blast
    from Some found ne have
      "selectedModelProvider (modelEffect member models st) = provider_name (provider m)"
      by (simp add: modelEffect_def setSelectedModelProvider_def)
    with d Some show ?thesis by blast
  qed
qed

lemma onModelSelect_provider:
  assumes "selectedModelProvider (onModelSelect models modelName st) \<noteq> selectedModelProvider st"
  shows "\<exists>data m. models = Some data \<and> m \<in> set data \<and> ai_model_name m = modelName \<and>
           selectedModelProvider (onModelSelect models modelName st) = provider_name (provider m)"
proof (cases "findModel models modelName")
  case None
  with assms show ?thesis by (simp add: onModelSelect_def)
next
  case (Some m)
  from findModel_Some [OF Some] obtain data where
    d: "models = Some data" "m \<in> set data" "ai_model_name m = modelName" by blast
  from Some have
    "selectedModelProvider (onModelSelect models modelName st) = provider_name (provider m)"
    by (simp add: onModelSelect_def setSelectedModelProvider_def setValue_def)
  with d show ?thesis by blast
qed

lemma other_handlers_keep_provider:
  "selectedModelProvider (setValue w st) = selectedModelProvider st"
  "selectedModelProvider (onChange w st) = selectedModelProvider st"
  "selectedModelProvider (handleSubmit member teamId st) = selectedModelProvider st"
  "selectedModelProvider (onSuccess teamId data st) = selectedModelProvider st"
  "selectedModelProvider (onError teamId err st) = selectedModelProvider st"
  "selectedModelProvider (onCancel st) = selectedModelProvider st"
  by (simp_all add: setValue_def onChange_def handleSubmit_def onSuccess_def onError_def onCancel_def
      handler_defs split: option.splits)

lemma step_provider:
  assumes "selectedModelProvider (step member teamId models e st) \<noteq> selectedModelProvider st"
  shows "\<exists>data m. models = Some data \<and> m \<in> set data \<and>
           selectedModelProvider (step member teamId models e st) = provider_name (provider m) \<and>
           ((e = ModelEffect \<and> member_model member = Some (ai_model_name m)) \<or>
            e = ModelSelected (ai_model_name m))"
proof (cases e)
  case (ModelSelected modelName)
  with assms onModelSelect_provider [of models modelName st] show ?thesis by auto
next
  case ModelEffect
  with assms modelEffect_provider [of member models st] show ?thesis by auto
qed (use assms in \<open>simp_all add: other_handlers_keep_provider\<close>)

lemma run_snoc:
  "run member teamId models (events @ [e]) st =
     step member teamId models e (run member teamId models events st)"
  by (simp add: run_def)

lemma run_provider:
  "selectedModelProvider (run member teamId models events (openSession member)) = ''openai'' \<or>
   (\<exists>data m. models = Some data \<and> m \<in> set data \<and>
      selectedModelProvider (run member teamId models events (openSession member)) =
        provider_name (provider m))"
proof (induction events rule: rev_induct)
  case Nil
  show ?case by (simp add: run_def openSession_def)
next
  case (snoc e events)
  let ?s = "run member teamId models events (openSession member)"
  show ?case
  proof (cases "selectedModelProvider (step member teamId models e ?s) = selectedModelProvider ?s")
    case True
    with snoc show ?thesis by (simp add: run_snoc)
  next
    case False
    from step_provider [OF False] show ?thesis by (auto simp: run_snoc)
  qed
qed

text \<open>
  C10: a session opens with the selected provider \<open>openai\<close>. An event changes it only when
  a model of the fetched catalog is found, and then to the provider of that model: either
  the effect found the model stored in the member, or the user selected the model by its
  name. Hence, after any sequence of events, the selected provider is \<open>openai\<close> or the
  provider of a model of the catalog.
\<close>

theorem selected_provider_default:
  "selectedModelProvider (openSession member) = ''openai'' \<and>
   (\<forall>e st. selectedModelProvider (step member teamId models e st) \<noteq> selectedModelProvider st \<longrightarrow>
      (\<exists>data m. models = Some data \<and> m \<in> set data \<and>
         selectedModelProvider (step member teamId models e st) = provider_name (provider m) \<and>
         ((e = ModelEffect \<and> member_model member = Some (ai_model_name m)) \<or>
          e = ModelSelected (ai_model_name m)))) \<and>
   (\<forall>events.
      selectedModelProvider (run member teamId models events (openSession member)) = ''openai'' \<or>
      (\<exists>data m. models = Some data \<and> m \<in> set data \<and>
         selectedModelProvider (run member teamId models events (openSession member)) =
           provider_name (provider m)))"
proof -
  have init: "selectedModelProvider (openSession member) = ''openai''"
    by (simp add: openSession_def)
  from init step_provider run_provider show ?thesis by blast
qed

theorem selected_provider_default_witness:
  "selectedModelProvider (openSession scenarioMember) = ''openai'' \<and>
   selectedModelProvider
     (step scenarioMember 7 (Some scenarioModels) ModelEffect (openSession scenarioMember)) =
     ''zhipuai'' \<and>
   selectedModelProvider
     (step scenarioMember 7 None ModelEffect (openSession scenarioMember)) = ''openai'' \<and>
   selectedModelProvider
     (step scenarioMember 7 (Some scenarioModels) (ModelSelected ''gpt-5'')
        (step scenarioMember 7 (Some scenarioModels) ModelEffect (openSession scenarioMember))) =
     ''zhipuai'' \<and>
   (\<exists>m \<in> set scenarioModels.
      provider_name (provider m) = ''zhipuai'' \<and>
      member_model scenarioMember = Some (ai_model_name m))"
proof -
  let ?s1 = "step scenarioMember 7 (Some scenarioModels) ModelEffect (openSession scenarioMember)"
  have p: "selectedModelProvider (openSession scenarioMember) = ''openai''"
    "selectedModelProvider ?s1 = ''zhipuai''"
    "selectedModelProvider
       (step scenarioMember 7 None ModelEffect (openSession scenarioMember)) = ''openai''"
    "selectedModelProvider
       (step scenarioMember 7 (Some scenarioModels) (ModelSelected ''gpt-5'') ?s1) = ''zhipuai''"
    by (simp_all add: openSession_def modelEffect_def onModelSelect_def findModel_def
        scenarioModels_def scenarioMember_def setSelectedModelProvider_def)
  then have changed: "selectedModelProvider ?s1 \<noteq> selectedModelProvider (openSession scenarioMember)"
    by simp
  from selected_provider_default [of scenarioMember 7 "Some scenarioModels"] changed
  obtain data m where "Some scenarioModels = Some data" "m \<in> set data"
    "selectedModelProvider ?s1 = provider_name (provider m)"
    "(ModelEffect = ModelEffect \<and> member_model scenarioMember = Some (ai_model_name m)) \<or>
     ModelEffect = ModelSelected (ai_model_name m)"
    by blast
  then have "\<exists>m \<in> set scenarioModels.
      provider_name (provider m) = ''zhipuai'' \<and>
      member_model scenarioMember = Some (ai_model_name m)"
    using p(2) by auto
  with p show ?thesis by simp
qed

end
